theory Spec2Isabelle
  imports Main "HOL-Library.AList"
begin

section \<open>OlivaTransfer: the RSSapi class of app.py\<close>

text \<open>
  The class \<open>RSSapi\<close> holds five attributes. Its methods \<open>fetch\<close> and \<open>parse\<close> are the
  pipeline, modelled here with the constructor. The model passes the object explicitly: a
  method takes the object and returns its result together with the object as the method
  leaves it. An exception is a value \<open>Inl e\<close>; the object returned beside it is the object
  at the moment of the raise. The \<open>print\<close> calls of the source write to the terminal only
  and are left out.
\<close>

subsection \<open>Python values\<close>

text \<open>
  A Python \<open>dict\<close> keeps its keys in insertion order and holds each key once: an
  association list whose assignment \<open>d[k] = v\<close> is \<open>AList.update k v d\<close> (an existing key
  keeps its place, a new key goes to the end). \<open>d[k]\<close> raises \<open>KeyError\<close> for a missing key.
\<close>

datatype error = TypeError | KeyError | ParseError | RequestException

type_synonym 'v dict = "(string \<times> 'v) list"

definition getitem :: "'v dict \<Rightarrow> string \<Rightarrow> error + 'v" where
  "getitem d k = (case map_of d k of None \<Rightarrow> Inl KeyError | Some v \<Rightarrow> Inr v)"

definition setitem :: "'v dict \<Rightarrow> string \<Rightarrow> 'v \<Rightarrow> 'v dict" where
  "setitem d k v = AList.update k v d"

text \<open>
  A \<open>dict\<close> object is not callable: the expression \<open>d(k)\<close> raises \<open>TypeError\<close> whatever
  \<open>d\<close> holds and whatever \<open>k\<close> is.
\<close>

definition call_dict :: "'v dict \<Rightarrow> string \<Rightarrow> error + 'v option" where
  "call_dict d k = Inl TypeError"

subsection \<open>The HTTP boundary\<close>

text \<open>
  \<open>requests.request\<close> is a library call: it is a parameter of the model, a function of
  the method, the URL, the headers and the timeout in seconds, which either raises
  (timeout, DNS failure, refused connection) or returns a response.
\<close>

record response =
  status_code :: int
  resp_text :: string

type_synonym transport = "string \<Rightarrow> string \<Rightarrow> string dict \<Rightarrow> nat \<Rightarrow> error + response"

definition headers :: "string dict" where
  "headers = [(''User-Agent'',
     ''Mozilla/5.0 (Windows NT 10.0; Win64; x64) AppleWebKit/537.36 (KHTML, like Gecko) Chrome/58.0.3029.110 Safari/537.3'')]"

text \<open>\<open>RSSapi._request\<close>: the \<open>method\<close> argument is accepted and ignored, the call is always a GET.\<close>

definition private_request :: "transport \<Rightarrow> string \<Rightarrow> string \<Rightarrow> error + response" where
  "private_request http url method = http ''GET'' url headers 10"

subsection \<open>The XML boundary\<close>

text \<open>
  An \<open>ElementTree\<close> element has a tag, a text that is a string or \<open>None\<close>, and children.
  \<open>ET.fromstring\<close> is a library call and a parameter of the model: it raises \<open>ParseError\<close>
  on malformed input. \<open>findall('.//item')\<close> lists, in document order, every proper
  descendant of the element with that tag; \<open>find(t)\<close> gives the first child with tag \<open>t\<close>,
  or \<open>None\<close>.
\<close>

datatype element = Element (tag: string) (etext: "string option") (children: "element list")

type_synonym xml_parser = "string \<Rightarrow> error + element"

fun descendants :: "element \<Rightarrow> element list" where
  "descendants (Element t x cs) = concat (map (\<lambda>c. c # descendants c) cs)"

definition findall :: "element \<Rightarrow> string \<Rightarrow> element list" where
  "findall root t = filter (\<lambda>e. tag e = t) (descendants root)"

definition find_child :: "element \<Rightarrow> string \<Rightarrow> element option" where
  "find_child e t = List.find (\<lambda>c. tag c = t) (children e)"

text \<open>
  The membership test \<open>x in c\<close> of line 74 has an element or \<open>None\<close> on the left (what
  \<open>find\<close> returned) and a cursor on the right, a string or \<open>None\<close>. A string on the right
  accepts only a string on the left, and \<open>None\<close> on the right is not iterable: both raise
  \<open>TypeError\<close>.
\<close>

fun element_in :: "element option \<Rightarrow> string option \<Rightarrow> error + bool" where
  "element_in x (Some c) = Inl TypeError"
| "element_in x None = Inl TypeError"

subsection \<open>The object\<close>

text \<open>
  The five keys of an item record. Each value is the \<open>text\<close> of a node (a string, or
  \<open>None\<close> for a node without text) or the empty string.
\<close>

record item =
  title :: "string option"
  link :: "string option"
  guid :: "string option"
  pubDate :: "string option"
  description :: "string option"

record 't RSSapi =
  rss_source :: "string dict option"
  target :: "'t option"
  guids :: "string option dict"
  data_raw :: "string dict option"
  data :: "item list dict option"

text \<open>\<open>__init__\<close>: the three arguments are stored, both snapshots start as \<open>None\<close>.\<close>

definition init :: "string dict option \<Rightarrow> 't option \<Rightarrow> string option dict \<Rightarrow> 't RSSapi" where
  "init src tgt gs = \<lparr>rss_source = src, target = tgt, guids = gs, data_raw = None, data = None\<rparr>"

subsection \<open>fetch\<close>

text \<open>
  The loop of lines 49 to 57 over \<open>rss_source.items()\<close>, with the local \<open>tmp_rss\<close> as
  accumulator. An exception of the request leaves the loop at once.
\<close>

fun fetch_loop :: "transport \<Rightarrow> string dict \<Rightarrow> string dict \<Rightarrow> string dict \<Rightarrow> error + string dict" where
  "fetch_loop http src [] tmp_rss = Inr tmp_rss"
| "fetch_loop http src ((platform, url) # rest) tmp_rss =
     (case getitem src platform of
        Inl e \<Rightarrow> Inl e
      | Inr u \<Rightarrow>
          if u \<noteq> '''' then
            (case private_request http url ''GET'' of
               Inl e \<Rightarrow> Inl e
             | Inr response \<Rightarrow>
                 if status_code response = 200
                 then fetch_loop http src rest (setitem tmp_rss platform (resp_text response))
                 else fetch_loop http src rest tmp_rss)
          else fetch_loop http src rest tmp_rss)"

definition fetch ::
  "transport \<Rightarrow> 't RSSapi \<Rightarrow> string dict option \<Rightarrow> (error + string dict option) \<times> 't RSSapi" where
  "fetch http self arg =
     (case (case arg of None \<Rightarrow> rss_source self | Some d \<Rightarrow> Some d) of
        None \<Rightarrow> (Inr None, self)
      | Some src \<Rightarrow>
          if length src = 0 then (Inr None, self)
          else (case fetch_loop http src src [] of
                  Inl e \<Rightarrow> (Inl e, self)
                | Inr tmp_rss \<Rightarrow> (Inr (Some tmp_rss), self\<lparr>data_raw := Some tmp_rss\<rparr>)))"

subsection \<open>parse\<close>

text \<open>Lines 76 to 80: \<open>item.find(t).text if item.find(t) is not None else ''\<close>.\<close>

definition field :: "element \<Rightarrow> string \<Rightarrow> string option" where
  "field it t = (case find_child it t of Some n \<Rightarrow> etext n | None \<Rightarrow> Some '''')"

text \<open>
  The inner loop of lines 73 to 88 over the items of one source: \<open>items\<close> is the list
  built so far, \<open>g\<close> the cursor store, which line 88 writes after every appended item.
\<close>

fun parse_items ::
  "string \<Rightarrow> element list \<Rightarrow> item list \<Rightarrow> string option dict \<Rightarrow> (error + item list) \<times> string option dict" where
  "parse_items platform [] items g = (Inr items, g)"
| "parse_items platform (it # rest) items g =
     (case getitem g platform of
        Inl e \<Rightarrow> (Inl e, g)
      | Inr cursor \<Rightarrow>
          (case element_in (find_child it ''guid'') cursor of
             Inl e \<Rightarrow> (Inl e, g)
           | Inr seen \<Rightarrow>
               if seen then parse_items platform rest items g
               else parse_items platform rest
                      (items @ [\<lparr>title = field it ''title'', link = field it ''link'',
                                 guid = field it ''guid'', pubDate = field it ''pubDate'',
                                 description = field it ''description''\<rparr>])
                      (setitem g platform (field it ''guid''))))"

text \<open>
  The outer loop of lines 68 to 89 over \<open>data_raw.items()\<close>. Line 69 calls the cursor
  store, \<open>self.guids(platform)\<close>, where the store is a \<open>dict\<close>.
\<close>

fun parse_loop ::
  "xml_parser \<Rightarrow> string dict \<Rightarrow> item list dict \<Rightarrow> string option dict \<Rightarrow>
   (error + item list dict) \<times> string option dict" where
  "parse_loop fromstring [] tmp_data g = (Inr tmp_data, g)"
| "parse_loop fromstring ((platform, raw) # rest) tmp_data g =
     (case call_dict g platform of
        Inl e \<Rightarrow> (Inl e, g)
      | Inr r \<Rightarrow>
          (let g1 = (if r = None then setitem g platform (Some '''') else g) in
           case fromstring raw of
             Inl e \<Rightarrow> (Inl e, g1)
           | Inr root \<Rightarrow>
               (case parse_items platform (findall root ''item'') [] g1 of
                  (Inl e, g2) \<Rightarrow> (Inl e, g2)
                | (Inr items, g2) \<Rightarrow> parse_loop fromstring rest (setitem tmp_data platform items) g2)))"

definition parse ::
  "xml_parser \<Rightarrow> 't RSSapi \<Rightarrow> (error + item list dict option) \<times> 't RSSapi" where
  "parse fromstring self =
     (case data_raw self of
        None \<Rightarrow> (Inr None, self)
      | Some raws \<Rightarrow>
          if length raws = 0 then (Inr None, self)
          else (case parse_loop fromstring raws [] (guids self) of
                  (Inl e, g) \<Rightarrow> (Inl e, self\<lparr>guids := g\<rparr>)
                | (Inr tmp_data, g) \<Rightarrow> (Inr (Some tmp_data), self\<lparr>guids := g, data := Some tmp_data\<rparr>)))"

subsection \<open>Reading of the specification's words\<close>

text \<open>
  The specification speaks of a success status and of a non-2xx status: the success
  statuses of HTTP are the codes 200 to 299.
\<close>

definition success_status :: "int \<Rightarrow> bool" where
  "success_status c = (200 \<le> c \<and> c \<le> 299)"

subsection \<open>Concrete inputs\<close>

text \<open>
  A network in which one host answers 200, one answers 503, one answers 204 and every
  other host cannot be reached.
\<close>

definition demo_http :: transport where
  "demo_http method url hs timeout =
     (if url = ''http://a/rss'' then Inr \<lparr>status_code = 200, resp_text = ''<rss/>''\<rparr>
      else if url = ''http://b/rss'' then Inr \<lparr>status_code = 503, resp_text = ''unavailable''\<rparr>
      else if url = ''http://c/rss'' then Inr \<lparr>status_code = 204, resp_text = ''''\<rparr>
      else Inl RequestException)"

definition reachable_sources :: "string dict" where
  "reachable_sources =
     [(''feedA'', ''http://a/rss''), (''feedB'', ''http://b/rss''),
      (''feedC'', ''http://c/rss''), (''feedOff'', '''')]"

definition api0 :: "unit RSSapi" where
  "api0 = init None None []"

text \<open>
  Three feed documents with the trees \<open>ET.fromstring\<close> builds for them, and a parser
  that knows these three and rejects every other text as malformed.
\<close>

definition guid_item :: "string \<Rightarrow> element" where
  "guid_item g = Element ''item'' None [Element ''guid'' (Some g) []]"

definition xml_three :: string where
  "xml_three = ''<rss><channel><item><guid>g3</guid></item><item><guid>g2</guid></item><item><guid>g1</guid></item></channel></rss>''"

definition tree_three :: element where
  "tree_three = Element ''rss'' None
     [Element ''channel'' None [guid_item ''g3'', guid_item ''g2'', guid_item ''g1'']]"

definition xml_two :: string where
  "xml_two = ''<rss><channel><item><guid>g2</guid></item><item><guid>g1</guid></item></channel></rss>''"

definition tree_two :: element where
  "tree_two = Element ''rss'' None [Element ''channel'' None [guid_item ''g2'', guid_item ''g1'']]"

definition xml_no_description :: string where
  "xml_no_description = ''<rss><channel><item><title>t</title><link>l</link><guid>g</guid><pubDate>d</pubDate></item></channel></rss>''"

definition item_no_description :: element where
  "item_no_description = Element ''item'' None
     [Element ''title'' (Some ''t'') [], Element ''link'' (Some ''l'') [],
      Element ''guid'' (Some ''g'') [], Element ''pubDate'' (Some ''d'') []]"

definition tree_no_description :: element where
  "tree_no_description = Element ''rss'' None [Element ''channel'' None [item_no_description]]"

definition demo_fromstring :: xml_parser where
  "demo_fromstring raw =
     (if raw = xml_three then Inr tree_three
      else if raw = xml_two then Inr tree_two
      else if raw = xml_no_description then Inr tree_no_description
      else Inl ParseError)"

section \<open>Properties\<close>

subsection \<open>Dictionaries and the XML helpers\<close>

lemma getitem_member:
  "distinct (map fst d) \<Longrightarrow> (k, v) \<in> set d \<Longrightarrow> getitem d k = Inr v"
  by (simp add: getitem_def)

lemma setitem_fresh:
  "k \<notin> fst ` set d \<Longrightarrow> setitem d k v = d @ [(k, v)]"
  by (induction d) (auto simp: setitem_def)

lemma set_map_filter: "set (List.map_filter f xs) = {y. \<exists>x \<in> set xs. f x = Some y}"
  by (induction xs) (auto simp: List.map_filter_simps split: option.splits)

lemma findall_tree_three:
  "findall tree_three ''item'' = [guid_item ''g3'', guid_item ''g2'', guid_item ''g1'']"
  by (simp add: findall_def tree_three_def guid_item_def)

lemma field_absent: "find_child it t = None \<Longrightarrow> field it t = Some ''''"
  by (simp add: field_def)

lemma field_item_no_description:
  "field item_no_description ''description'' = Some '''' \<and>
   field item_no_description ''guid'' = Some ''g''"
  by (simp add: field_def find_child_def item_no_description_def)

subsection \<open>The loops\<close>

text \<open>
  The first pass of the outer loop of \<open>parse\<close> calls the cursor store and raises; the
  store is as it was.
\<close>

lemma parse_loop_nonempty:
  "raws \<noteq> [] \<Longrightarrow> parse_loop fromstring raws tmp_data g = (Inl TypeError, g)"
  by (cases raws) (auto simp: call_dict_def)

lemma parse_nonempty:
  "data_raw self = Some raws \<Longrightarrow> raws \<noteq> [] \<Longrightarrow> parse fromstring self = (Inl TypeError, self)"
  by (simp add: parse_def parse_loop_nonempty)

lemma parse_empty:
  "data_raw self = None \<or> data_raw self = Some [] \<Longrightarrow> parse fromstring self = (Inr None, self)"
  by (auto simp: parse_def)

text \<open>A request that raises anywhere in the remaining sources makes the loop of \<open>fetch\<close> raise.\<close>

lemma fetch_loop_raises:
  assumes "(p, url) \<in> set items" "getitem src p = Inr url" "url \<noteq> ''''"
    "private_request http url ''GET'' = Inl e"
  shows "\<exists>e'. fetch_loop http src items tmp = Inl e'"
  using assms
proof (induction items arbitrary: tmp)
  case Nil
  then show ?case by simp
next
  case (Cons a items)
  obtain q v where a: "a = (q, v)" by (cases a)
  show ?case
  proof (cases "a = (p, url)")
    case True
    with Cons.prems a show ?thesis by simp
  next
    case False
    with Cons.prems have "(p, url) \<in> set items" by simp
    from Cons.IH[OF this Cons.prems(2-4)] show ?thesis
      by (simp add: a split: sum.splits)
  qed
qed

text \<open>
  When no request raises, the loop ends and has appended, in the order of the sources,
  the text of every source with a non-empty URL whose status code is 200.
\<close>

lemma fetch_loop_ok:
  assumes "distinct (map fst src)" "set items \<subseteq> set src" "distinct (map fst items)"
    "fst ` set items \<inter> fst ` set tmp = {}"
    "\<forall>(p, u) \<in> set items. u \<noteq> '''' \<longrightarrow> (\<exists>r. private_request http u ''GET'' = Inr r)"
  shows "fetch_loop http src items tmp =
    Inr (tmp @ List.map_filter (\<lambda>(p, u).
      if u \<noteq> '''' then
        (case private_request http u ''GET'' of Inl e \<Rightarrow> None
         | Inr r \<Rightarrow> if status_code r = 200 then Some (p, resp_text r) else None)
      else None) items)"
  using assms(2-)
proof (induction items arbitrary: tmp)
  case Nil
  then show ?case by (simp add: List.map_filter_simps)
next
  case (Cons a items)
  obtain q v where a: "a = (q, v)" by (cases a)
  from Cons.prems a have g: "getitem src q = Inr v"
    using getitem_member[OF assms(1)] by auto
  from Cons.prems a have fresh: "q \<notin> fst ` set tmp" by auto
  have sub: "set items \<subseteq> set src" and dist: "distinct (map fst items)"
    and rest: "\<forall>(p, u) \<in> set items. u \<noteq> '''' \<longrightarrow> (\<exists>r. private_request http u ''GET'' = Inr r)"
    using Cons.prems by auto
  have disj: "fst ` set items \<inter> fst ` set tmp = {}" using Cons.prems by auto
  have disj': "fst ` set items \<inter> fst ` set (tmp @ [(q, x)]) = {}" for x
    using Cons.prems a by auto
  show ?case
  proof (cases "v = ''''")
    case True
    then show ?thesis using Cons.IH[OF sub dist disj rest] g a
      by (simp add: List.map_filter_simps)
  next
    case False
    with Cons.prems a obtain r where r: "private_request http v ''GET'' = Inr r" by auto
    show ?thesis
    proof (cases "status_code r = 200")
      case True
      then show ?thesis
        using Cons.IH[OF sub dist disj' rest] g a r False fresh
        by (simp add: List.map_filter_simps setitem_fresh)
    next
      case other: False
      then show ?thesis
        using Cons.IH[OF sub dist disj rest] g a r False
        by (simp add: List.map_filter_simps)
    qed
  qed
qed

lemma fetch_reachable_sources:
  "fetch demo_http api0 (Some reachable_sources) =
     (Inr (Some [(''feedA'', ''<rss/>'')]), api0\<lparr>data_raw := Some [(''feedA'', ''<rss/>'')]\<rparr>)"
  by (simp add: fetch_def getitem_def setitem_def private_request_def demo_http_def
      reachable_sources_def)

subsection \<open>Claims\<close>

text \<open>
  C4. Whenever the raw-payload snapshot is non-empty, \<open>parse\<close> raises \<open>TypeError\<close> at the
  cursor lookup of the first source: nothing of the object has changed, and the result
  is the same for every XML parser, every payload and every cursor store, so no XML has
  been read. Hence \<open>parse\<close> never returns a parsed result other than \<open>None\<close>.
\<close>

theorem parse_nonempty_raises_TypeError:
  "(data_raw self = Some raws \<and> raws \<noteq> [] \<longrightarrow> parse fromstring self = (Inl TypeError, self)) \<and>
   (\<forall>result. fst (parse fromstring self) \<noteq> Inr (Some result))"
proof -
  have "fst (parse fromstring self) \<noteq> Inr (Some result)" for result
  proof (cases "data_raw self")
    case None
    then show ?thesis by (simp add: parse_empty)
  next
    case (Some raws)
    then show ?thesis
      by (cases "raws = []") (simp_all add: parse_empty parse_nonempty)
  qed
  then show ?thesis by (simp add: parse_nonempty)
qed

theorem parse_nonempty_raises_TypeError_witness:
  "data_raw (api0\<lparr>data_raw := Some [(''feedA'', xml_three)]\<rparr>) = Some [(''feedA'', xml_three)] \<and>
   [(''feedA'', xml_three)] \<noteq> [] \<and>
   parse demo_fromstring (api0\<lparr>data_raw := Some [(''feedA'', xml_three)]\<rparr>)
     = (Inl TypeError, api0\<lparr>data_raw := Some [(''feedA'', xml_three)]\<rparr>)"
  using parse_nonempty_raises_TypeError
    [of "api0\<lparr>data_raw := Some [(''feedA'', xml_three)]\<rparr>" "[(''feedA'', xml_three)]" demo_fromstring]
  by simp

text \<open>
  C7. With nothing to do, both methods return \<open>None\<close> and raise nothing, and the object
  is unchanged: \<open>fetch\<close> called without a mapping while the registry is absent or empty,
  \<open>fetch\<close> called with an empty mapping (whatever the registry holds), and \<open>parse\<close> while
  the raw-payload snapshot is absent or empty. Conversely \<open>None\<close> is returned in no other
  case: a \<open>fetch\<close> that returns \<open>None\<close> had no mapping to work on, and a \<open>parse\<close> that
  returns \<open>None\<close> had no payload to work on. With sources to work on, \<open>fetch\<close> raises or
  returns a payload (the empty one when every source was skipped), and \<open>parse\<close> raises;
  so the \<open>None\<close> tells the caller "nothing to do" apart from a failure.
\<close>

theorem null_iff_nothing_to_do:
  "(rss_source self = None \<or> rss_source self = Some [] \<longrightarrow> fetch http self None = (Inr None, self)) \<and>
   fetch http self (Some []) = (Inr None, self) \<and>
   (data_raw self = None \<or> data_raw self = Some [] \<longrightarrow> parse fromstring self = (Inr None, self)) \<and>
   (fst (fetch http self arg) = Inr None \<longrightarrow>
      arg = Some [] \<or> arg = None \<and> (rss_source self = None \<or> rss_source self = Some [])) \<and>
   (fst (parse fromstring self) = Inr None \<longrightarrow> data_raw self = None \<or> data_raw self = Some [])"
proof -
  have f: "fst (fetch http self arg) = Inr None \<longrightarrow>
      arg = Some [] \<or> arg = None \<and> (rss_source self = None \<or> rss_source self = Some [])"
    by (cases arg; cases "rss_source self")
       (auto simp: fetch_def split: sum.splits if_splits)
  have p: "fst (parse fromstring self) = Inr None \<longrightarrow> data_raw self = None \<or> data_raw self = Some []"
  proof (cases "data_raw self")
    case None
    then show ?thesis by simp
  next
    case (Some raws)
    then show ?thesis by (cases "raws = []") (simp_all add: parse_nonempty)
  qed
  have n: "(rss_source self = None \<or> rss_source self = Some [] \<longrightarrow> fetch http self None = (Inr None, self)) \<and>
   fetch http self (Some []) = (Inr None, self)"
    by (auto simp: fetch_def)
  from n f p show ?thesis by (simp add: parse_empty)
qed

theorem null_iff_nothing_to_do_witness:
  "rss_source api0 = None \<and> data_raw api0 = None \<and>
   fetch demo_http api0 None = (Inr None, api0) \<and>
   fetch demo_http api0 (Some []) = (Inr None, api0) \<and>
   parse demo_fromstring api0 = (Inr None, api0) \<and>
   fst (fetch demo_http api0 (Some reachable_sources)) \<noteq> Inr None \<and>
   fst (fetch demo_http api0 (Some [(''feedB'', ''http://b/rss'')])) \<noteq> Inr None \<and>
   fst (parse demo_fromstring (api0\<lparr>data_raw := Some [(''feedA'', xml_two)]\<rparr>)) \<noteq> Inr None"
proof -
  have a: "rss_source api0 = None" "data_raw api0 = None" by (simp_all add: api0_def init_def)
  note t1 = null_iff_nothing_to_do [of api0 demo_http demo_fromstring None]
  note t2 = null_iff_nothing_to_do [of api0 demo_http demo_fromstring "Some reachable_sources"]
  note t3 = null_iff_nothing_to_do [of api0 demo_http demo_fromstring "Some [(''feedB'', ''http://b/rss'')]"]
  note t4 = null_iff_nothing_to_do
    [of "api0\<lparr>data_raw := Some [(''feedA'', xml_two)]\<rparr>" demo_http demo_fromstring None]
  have r: "reachable_sources \<noteq> []" by (simp add: reachable_sources_def)
  have c1: "fst (fetch demo_http api0 (Some reachable_sources)) \<noteq> Inr None"
    using t2 r by auto
  have c2: "fst (fetch demo_http api0 (Some [(''feedB'', ''http://b/rss'')])) \<noteq> Inr None"
    using t3 by auto
  have c3: "fst (parse demo_fromstring (api0\<lparr>data_raw := Some [(''feedA'', xml_two)]\<rparr>)) \<noteq> Inr None"
    using t4 by auto
  from t1 a c1 c2 c3 show ?thesis by simp
qed

text \<open>
  C10. \<open>fetch\<close> leaves the registry, the destination routing, the cursor store and the
  parsed-result snapshot as they were, whatever its outcome. The raw-payload snapshot is
  written once, with the payload \<open>fetch\<close> returns: when \<open>fetch\<close> returns \<open>None\<close> or raises,
  also in the middle of the batch, the snapshot keeps its previous value.
\<close>

theorem fetch_frame:
  assumes "fetch http self arg = (r, self')"
  shows "rss_source self' = rss_source self \<and> target self' = target self \<and>
         guids self' = guids self \<and> data self' = data self \<and>
         data_raw self' = (case r of Inr (Some payload) \<Rightarrow> Some payload | _ \<Rightarrow> data_raw self)"
  using assms by (auto simp: fetch_def split: option.splits sum.splits if_splits)

theorem fetch_frame_witness:
  "fetch demo_http (api0\<lparr>data_raw := Some [(''old'', ''x'')]\<rparr>)
      (Some [(''feedA'', ''http://a/rss''), (''feedD'', ''http://d/rss'')])
     = (Inl RequestException, api0\<lparr>data_raw := Some [(''old'', ''x'')]\<rparr>) \<and>
   data_raw (api0\<lparr>data_raw := Some [(''old'', ''x'')]\<rparr>) = Some [(''old'', ''x'')]"
proof -
  have h: "fetch demo_http (api0\<lparr>data_raw := Some [(''old'', ''x'')]\<rparr>)
      (Some [(''feedA'', ''http://a/rss''), (''feedD'', ''http://d/rss'')])
     = (Inl RequestException, api0\<lparr>data_raw := Some [(''old'', ''x'')]\<rparr>)"
    by (simp add: fetch_def getitem_def setitem_def private_request_def demo_http_def)
  from fetch_frame[OF h] show ?thesis using h by simp
qed

text \<open>
  C2, as the code has it. \<open>fetch\<close> has no handler around the request: when the request of
  any source with a non-empty URL raises, \<open>fetch\<close> raises, returns no payload for any
  source and leaves the object, with its previous raw-payload snapshot, unchanged. The
  claim that the other sources are still fetched and returned fails: below, \<open>feedA\<close>
  answers 200 and is not returned, because \<open>feedD\<close> cannot be reached.
\<close>

theorem fetch_transport_failure_aborts:
  assumes "distinct (map fst src)" and "(p, url) \<in> set src" and "url \<noteq> ''''"
    and "private_request http url ''GET'' = Inl e"
    and "arg = Some src \<or> arg = None \<and> rss_source self = Some src"
  shows "\<exists>e'. fetch http self arg = (Inl e', self)"
proof -
  have "getitem src p = Inr url" using assms(1,2) by (rule getitem_member)
  from fetch_loop_raises[OF assms(2) this assms(3,4)]
  obtain e' where "fetch_loop http src src [] = Inl e'" by blast
  moreover have "src \<noteq> []" using assms(2) by auto
  ultimately show ?thesis using assms(5) by (auto simp: fetch_def)
qed

theorem fetch_transport_failure_aborts_witness:
  "distinct (map fst [(''feedA'', ''http://a/rss''), (''feedD'', ''http://d/rss''), (''feedB'', ''http://b/rss'')]) \<and>
   private_request demo_http ''http://d/rss'' ''GET'' = Inl RequestException \<and>
   (\<exists>e'. fetch demo_http api0
      (Some [(''feedA'', ''http://a/rss''), (''feedD'', ''http://d/rss''), (''feedB'', ''http://b/rss'')])
      = (Inl e', api0))"
proof -
  let ?src = "[(''feedA'', ''http://a/rss''), (''feedD'', ''http://d/rss''), (''feedB'', ''http://b/rss'')]"
  have h1: "distinct (map fst ?src)" by simp
  have h2: "(''feedD'', ''http://d/rss'') \<in> set ?src" by simp
  have h3: "''http://d/rss'' \<noteq> ''''" by simp
  have h4: "private_request demo_http ''http://d/rss'' ''GET'' = Inl RequestException"
    by (simp add: private_request_def demo_http_def)
  have h5: "Some ?src = Some ?src \<or> Some ?src = None \<and> rss_source api0 = Some ?src" by simp
  from fetch_transport_failure_aborts[OF h1 h2 h3 h4 h5] h1 h4 show ?thesis by blast
qed

theorem fetch_transport_failure_counterexample:
  "private_request demo_http ''http://a/rss'' ''GET'' = Inr \<lparr>status_code = 200, resp_text = ''<rss/>''\<rparr> \<and>
   private_request demo_http ''http://d/rss'' ''GET'' = Inl RequestException \<and>
   fetch demo_http api0 (Some [(''feedD'', ''http://d/rss''), (''feedA'', ''http://a/rss'')])
     = (Inl RequestException, api0)"
  by (simp add: fetch_def getitem_def setitem_def private_request_def demo_http_def)

text \<open>
  C8, as the code has it. When no request raises, \<open>fetch\<close> returns a payload and stores it
  as the raw-payload snapshot; a source is in the payload, with the text of its response,
  exactly when its URL is not empty and the status code of its response is 200. Every
  other status code, the success codes 201 to 299 among them, is a skip: the source is
  absent from the payload and the batch goes on. The claim's "exactly when the status is
  a success status" fails at 204.
\<close>

theorem fetch_includes_exactly_status_200:
  assumes "distinct (map fst src)" and "src \<noteq> []"
    and "arg = Some src \<or> arg = None \<and> rss_source self = Some src"
    and "\<forall>(p, u) \<in> set src. u \<noteq> '''' \<longrightarrow> (\<exists>r. private_request http u ''GET'' = Inr r)"
  shows "\<exists>payload. fetch http self arg = (Inr (Some payload), self\<lparr>data_raw := Some payload\<rparr>) \<and>
           distinct (map fst payload) \<and>
           (\<forall>p raw. (p, raw) \<in> set payload \<longleftrightarrow>
              (\<exists>u r. (p, u) \<in> set src \<and> u \<noteq> '''' \<and> private_request http u ''GET'' = Inr r \<and>
                     status_code r = 200 \<and> resp_text r = raw))"
proof -
  let ?f = "\<lambda>(p, u).
      if u \<noteq> '''' then
        (case private_request http u ''GET'' of Inl e \<Rightarrow> None
         | Inr r \<Rightarrow> if status_code r = 200 then Some (p, resp_text r) else None)
      else None"
  let ?payload = "List.map_filter ?f src"
  have loop: "fetch_loop http src src [] = Inr ([] @ ?payload)"
    by (rule fetch_loop_ok) (use assms in auto)
  have res: "fetch http self arg = (Inr (Some ?payload), self\<lparr>data_raw := Some ?payload\<rparr>)"
    using assms(2,3) loop by (auto simp: fetch_def)
  have keys: "map fst ?payload = map fst (filter (\<lambda>x. ?f x \<noteq> None) src)"
    unfolding List.map_filter_def
    by (auto simp: comp_def split: sum.splits if_splits intro!: map_cong)
  have dist: "distinct (map fst ?payload)"
    unfolding keys using assms(1) by (rule distinct_map_filter)
  have mem: "(p, raw) \<in> set ?payload \<longleftrightarrow>
              (\<exists>u r. (p, u) \<in> set src \<and> u \<noteq> '''' \<and> private_request http u ''GET'' = Inr r \<and>
                     status_code r = 200 \<and> resp_text r = raw)" for p raw
  proof
    assume "(p, raw) \<in> set ?payload"
    then obtain x where x: "x \<in> set src" "?f x = Some (p, raw)"
      by (auto simp: set_map_filter)
    obtain q u where "x = (q, u)" by (cases x)
    with x show "\<exists>u r. (p, u) \<in> set src \<and> u \<noteq> '''' \<and> private_request http u ''GET'' = Inr r \<and>
                     status_code r = 200 \<and> resp_text r = raw"
      by (auto split: sum.splits if_splits)
  next
    assume "\<exists>u r. (p, u) \<in> set src \<and> u \<noteq> '''' \<and> private_request http u ''GET'' = Inr r \<and>
                     status_code r = 200 \<and> resp_text r = raw"
    then obtain u r where "(p, u) \<in> set src" "?f (p, u) = Some (p, raw)" by auto
    then show "(p, raw) \<in> set ?payload"
      unfolding set_map_filter by blast
  qed
  show ?thesis using res dist mem by blast
qed

theorem fetch_includes_exactly_status_200_witness:
  "distinct (map fst reachable_sources) \<and> reachable_sources \<noteq> [] \<and>
   (\<exists>payload. fetch demo_http api0 (Some reachable_sources)
       = (Inr (Some payload), api0\<lparr>data_raw := Some payload\<rparr>) \<and>
       distinct (map fst payload) \<and>
       (''feedA'', ''<rss/>'') \<in> set payload \<and>
       (''feedB'', ''unavailable'') \<notin> set payload \<and>
       (''feedC'', '''') \<notin> set payload)"
proof -
  have h1: "distinct (map fst reachable_sources)" by (simp add: reachable_sources_def)
  have h2: "reachable_sources \<noteq> []" by (simp add: reachable_sources_def)
  have h3: "Some reachable_sources = Some reachable_sources \<or>
            Some reachable_sources = None \<and> rss_source api0 = Some reachable_sources" by simp
  have h4: "\<forall>(p, u) \<in> set reachable_sources. u \<noteq> '''' \<longrightarrow>
              (\<exists>r. private_request demo_http u ''GET'' = Inr r)"
    by (simp add: reachable_sources_def private_request_def demo_http_def)
  from fetch_includes_exactly_status_200[OF h1 h2 h3 h4]
  obtain payload where p: "fetch demo_http api0 (Some reachable_sources)
       = (Inr (Some payload), api0\<lparr>data_raw := Some payload\<rparr>)"
     "distinct (map fst payload)"
     "\<And>p raw. (p, raw) \<in> set payload \<longleftrightarrow>
          (\<exists>u r. (p, u) \<in> set reachable_sources \<and> u \<noteq> '''' \<and>
                 private_request demo_http u ''GET'' = Inr r \<and>
                 status_code r = 200 \<and> resp_text r = raw)"
    by blast
  have a: "(''feedA'', ''<rss/>'') \<in> set payload"
    unfolding p(3) by (simp add: reachable_sources_def private_request_def demo_http_def)
  have b: "(''feedB'', ''unavailable'') \<notin> set payload"
    unfolding p(3) by (simp add: reachable_sources_def private_request_def demo_http_def)
  have c: "(''feedC'', '''') \<notin> set payload"
    unfolding p(3) by (simp add: reachable_sources_def private_request_def demo_http_def)
  from h1 h2 p(1,2) a b c show ?thesis by blast
qed

theorem fetch_success_status_counterexample:
  "private_request demo_http ''http://c/rss'' ''GET'' = Inr \<lparr>status_code = 204, resp_text = ''''\<rparr> \<and>
   success_status 204 \<and>
   fetch demo_http api0 (Some [(''feedC'', ''http://c/rss'')])
     = (Inr (Some []), api0\<lparr>data_raw := Some []\<rparr>)"
  by (simp add: fetch_def getitem_def setitem_def private_request_def demo_http_def
      success_status_def)

text \<open>
  C3 asks that, of a snapshot with a malformed source and a valid one, \<open>parse\<close> return
  the items of the valid source and raise nothing. The code does not get that far: on the
  snapshot below, whose first source \<open>feedB\<close> is well-formed and holds the items g2 and
  g1 and whose second source \<open>feedA\<close> is malformed, \<open>parse\<close> raises \<open>TypeError\<close> at the
  cursor lookup of line 69 in the pass of the valid source \<open>feedB\<close>: no item of \<open>feedB\<close>
  is returned, the exception leaves the call, and the payload of \<open>feedA\<close> is never read.
\<close>

theorem parse_valid_source_beside_malformed_raises:
  "demo_fromstring ''<rss><channel>'' = Inl ParseError \<and>
   demo_fromstring xml_two = Inr tree_two \<and>
   findall tree_two ''item'' = [guid_item ''g2'', guid_item ''g1''] \<and>
   parse demo_fromstring (api0\<lparr>data_raw := Some [(''feedB'', xml_two), (''feedA'', ''<rss><channel>'')]\<rparr>)
     = (Inl TypeError, api0\<lparr>data_raw := Some [(''feedB'', xml_two), (''feedA'', ''<rss><channel>'')]\<rparr>)"
  by (simp add: parse_def call_dict_def demo_fromstring_def xml_three_def xml_two_def
      xml_no_description_def findall_def tree_two_def guid_item_def)

text \<open>
  C1 asks that the first \<open>parse\<close> of a feed with the guids g3, g2, g1 and the cursor \<open>''\<close>
  return the three items and set the cursor to g1, and that a second \<open>parse\<close> of the same
  payload return no item. The code does not get that far: on this input, whose document
  is well-formed and holds the three items, the first \<open>parse\<close> raises \<open>TypeError\<close> at the
  cursor lookup of line 69, returns nothing and leaves the cursor at \<open>''\<close>.
\<close>

theorem parse_three_items_raises:
  "demo_fromstring xml_three = Inr tree_three \<and>
   findall tree_three ''item'' = [guid_item ''g3'', guid_item ''g2'', guid_item ''g1''] \<and>
   parse demo_fromstring ((init None None [(''feedA'', Some '''')] :: unit RSSapi)\<lparr>data_raw := Some [(''feedA'', xml_three)]\<rparr>)
     = (Inl TypeError, (init None None [(''feedA'', Some '''')])\<lparr>data_raw := Some [(''feedA'', xml_three)]\<rparr>)"
  by (simp add: parse_def call_dict_def demo_fromstring_def findall_def tree_three_def guid_item_def)

text \<open>
  C5 asks that \<open>parse\<close> give a source without a cursor entry the cursor \<open>''\<close>, so that the
  store holds an entry for it afterwards. Lines 69 and 70 are written for this, but the
  test of line 69 calls the store instead of looking the key up: on a snapshot with the
  source \<open>feedA\<close> and an empty store, \<open>parse\<close> raises \<open>TypeError\<close> and the store still has no
  entry for \<open>feedA\<close>.
\<close>

theorem parse_leaves_cursor_missing:
  "map_of (guids api0) ''feedA'' = None \<and>
   fst (parse demo_fromstring (api0\<lparr>data_raw := Some [(''feedA'', xml_two)]\<rparr>)) = Inl TypeError \<and>
   map_of (guids (snd (parse demo_fromstring (api0\<lparr>data_raw := Some [(''feedA'', xml_two)]\<rparr>)))) ''feedA'' = None"
  by (simp add: parse_def call_dict_def api0_def init_def)

text \<open>
  C6 asks that after \<open>parse\<close> the cursor of a source be the guid of the item processed
  last, which line 88 is written for. On a feed with the new items g2 and g1 and the
  cursor g0, \<open>parse\<close> raises \<open>TypeError\<close> before the first item and the cursor is still
  g0, not g1.
\<close>

theorem parse_leaves_cursor_unadvanced:
  "fst (parse demo_fromstring
     ((init None None [(''feedA'', Some ''g0'')] :: unit RSSapi)\<lparr>data_raw := Some [(''feedA'', xml_two)]\<rparr>))
     = Inl TypeError \<and>
   guids (snd (parse demo_fromstring
     ((init None None [(''feedA'', Some ''g0'')] :: unit RSSapi)\<lparr>data_raw := Some [(''feedA'', xml_two)]\<rparr>)))
     = [(''feedA'', Some ''g0'')]"
  by (simp add: parse_def call_dict_def init_def)

text \<open>
  C9 asks that an item without a \<open>description\<close> node come back from \<open>parse\<close> as a record
  whose description is \<open>''\<close>, the other fields untouched, which lines 76 to 87 are
  written for. On a well-formed feed whose only item has no \<open>description\<close> node, \<open>parse\<close>
  raises \<open>TypeError\<close> at line 69 and returns no record at all.
\<close>

theorem parse_item_without_description_raises:
  "demo_fromstring xml_no_description = Inr tree_no_description \<and>
   findall tree_no_description ''item'' = [item_no_description] \<and>
   find_child item_no_description ''description'' = None \<and>
   parse demo_fromstring (api0\<lparr>data_raw := Some [(''feedA'', xml_no_description)]\<rparr>)
     = (Inl TypeError, api0\<lparr>data_raw := Some [(''feedA'', xml_no_description)]\<rparr>)"
  by (simp add: parse_def call_dict_def demo_fromstring_def findall_def find_child_def
      tree_no_description_def item_no_description_def xml_three_def xml_two_def
      xml_no_description_def)

end
